theory Spec2Isabelle
  imports Complex_Main "HOL-Library.Word"
begin

unbundle bit_operations_syntax

section \<open>The listener object of CameraHal/SensorListener.cpp\<close>

text \<open>
  The model follows \<^verbatim>\<open>src/CameraHal/SensorListener.cpp\<close> member by member.
  Pointers that the code tests against \<^verbatim>\<open>NULL\<close> are options, opaque handles
  (the callback's code address, the \<^verbatim>\<open>void*\<close> cookie, a \<^verbatim>\<open>Sensor const*\<close>)
  are natural numbers.  The mask \<^verbatim>\<open>sensorsEnabled\<close> and the argument of type
  \<^verbatim>\<open>sensor_type_t\<close> are 32-bit words, on which the code works with
  \<^verbatim>\<open>&\<close>, \<^verbatim>\<open>|=\<close> and \<^verbatim>\<open>&= ~\<close>.

  \<^verbatim>\<open>handleOrientation\<close>, \<^verbatim>\<open>enableSensor\<close> and \<^verbatim>\<open>disableSensor\<close> take
  \<^verbatim>\<open>mLock\<close>; \<^verbatim>\<open>setCallbacks\<close>, \<^verbatim>\<open>initialize\<close>, the constructor and the
  destructor take no lock.  The model is the sequential meaning of one completed call:
  it says nothing about calls that overlap in time.

  The header \<^verbatim>\<open>SensorListener.h\<close> is not among the sources.  The one constant of it
  that the code reads, \<^verbatim>\<open>SENSOR_ORIENTATION\<close>, is a parameter of every function that
  uses it, so every theorem holds whatever its value is.
\<close>

type_synonym orientation_callback_t = nat
type_synonym cookie = nat
type_synonym sensor = nat
type_synonym sensor_type_t = "32 word"

text \<open>\<^verbatim>\<open>Sensor::TYPE_ACCELEROMETER\<close>, \<^verbatim>\<open>Sensor::TYPE_GYROSCOPE\<close>, and any other type.\<close>

datatype sensor_kind = TYPE_ACCELEROMETER | TYPE_GYROSCOPE | TYPE_OTHER

text \<open>
  The calls the listener makes on its \<^verbatim>\<open>SensorEventQueue\<close>, in the order made.  The
  queue is the listener's handle on the hardware subsystem: the log of calls is what
  the subsystem has been told.
\<close>

datatype queue_call =
    EnableSensor sensor
  | SetEventRate sensor int
  | DisableSensor sensor

record event_queue =
  getFd :: int
  calls :: "queue_call list"

text \<open>The \<^verbatim>\<open>SensorManager\<close> singleton, as far as the listener reads it.\<close>

record sensor_manager =
  getDefaultSensor :: "sensor_kind \<Rightarrow> sensor option"

text \<open>A \<^verbatim>\<open>Looper\<close> with the descriptors registered on it, and the looper thread.\<close>

record looper =
  fds :: "int list"

record looper_thread =
  thread_looper :: looper

record listener =
  sensorsEnabled :: "32 word"
  mOrientationCb :: "orientation_callback_t option"
  mCbCookie :: cookie
  mSensorEventQueue :: "event_queue option"
  mSensorLooperThread :: "looper_thread option"
  mLooper :: "looper option"

text \<open>
  What the C++ leaves undefined is a value of the model: a call through a null
  \<^verbatim>\<open>sp<>\<close>, and the conversion to \<^verbatim>\<open>int\<close> of a floating-point value that is
  not a number or whose integral part does not fit (C11 6.3.1.4, C++ [conv.fpint]).
\<close>

datatype fault = NullPointerDereference | UndefinedConversion

definition and_then :: "fault + 'a \<Rightarrow> ('a \<Rightarrow> fault + 'b) \<Rightarrow> fault + 'b" where
  "and_then r f = (case r of Inl e \<Rightarrow> Inl e | Inr v \<Rightarrow> f v)"

subsection \<open>setCallbacks (lines 178--187)\<close>

definition setCallbacks :: "orientation_callback_t option \<Rightarrow> cookie \<Rightarrow> listener \<Rightarrow> listener" where
  "setCallbacks orientation_cb cookie l =
     (let l1 = (if orientation_cb \<noteq> None then l\<lparr>mOrientationCb := orientation_cb\<rparr> else l)
      in l1\<lparr>mCbCookie := cookie\<rparr>)"

subsection \<open>handleOrientation (lines 189--196)\<close>

text \<open>
  The callback is code of the client.  A call of it is recorded with its three
  arguments; \<^verbatim>\<open>handleOrientation\<close> returns the listener and the calls it made.
\<close>

datatype callback_call = Invoke orientation_callback_t "32 word" "32 word" cookie

definition handleOrientation ::
  "sensor_type_t \<Rightarrow> 32 word \<Rightarrow> 32 word \<Rightarrow> listener \<Rightarrow> listener \<times> callback_call list" where
  "handleOrientation SENSOR_ORIENTATION orientation tilt l =
     (case mOrientationCb l of
        None \<Rightarrow> (l, [])
      | Some cb \<Rightarrow>
          if sensorsEnabled l AND SENSOR_ORIENTATION \<noteq> 0
          then (l, [Invoke cb orientation tilt (mCbCookie l)])
          else (l, []))"

subsection \<open>enableSensor (lines 198--222) and disableSensor (lines 224--247)\<close>

text \<open>\<^verbatim>\<open>ms2ns\<close> of \<^verbatim>\<open>utils/Timers.h\<close>: milliseconds to nanoseconds.\<close>

definition ms2ns :: "int \<Rightarrow> int" where
  "ms2ns ms = ms * 1000000"

definition enableSensor ::
  "sensor_type_t \<Rightarrow> sensor_manager \<Rightarrow> sensor_type_t \<Rightarrow> listener \<Rightarrow> fault + listener" where
  "enableSensor SENSOR_ORIENTATION mgr type l =
     (if type AND SENSOR_ORIENTATION \<noteq> 0 \<and> \<not> (sensorsEnabled l AND SENSOR_ORIENTATION \<noteq> 0)
      then
        (case getDefaultSensor mgr TYPE_ACCELEROMETER of
           None \<Rightarrow> Inr l
         | Some sensor \<Rightarrow>
             (case mSensorEventQueue l of
                None \<Rightarrow> Inl NullPointerDereference
              | Some q \<Rightarrow>
                  Inr (l\<lparr>mSensorEventQueue :=
                          Some (q\<lparr>calls := calls q @
                                  [EnableSensor sensor, SetEventRate sensor (ms2ns 100)]\<rparr>),
                        sensorsEnabled := sensorsEnabled l OR SENSOR_ORIENTATION\<rparr>)))
      else Inr l)"

definition disableSensor ::
  "sensor_type_t \<Rightarrow> sensor_manager \<Rightarrow> sensor_type_t \<Rightarrow> listener \<Rightarrow> fault + listener" where
  "disableSensor SENSOR_ORIENTATION mgr type l =
     (if type AND SENSOR_ORIENTATION \<noteq> 0 \<and> sensorsEnabled l AND SENSOR_ORIENTATION \<noteq> 0
      then
        (case getDefaultSensor mgr TYPE_ACCELEROMETER of
           None \<Rightarrow> Inr l
         | Some sensor \<Rightarrow>
             (case mSensorEventQueue l of
                None \<Rightarrow> Inl NullPointerDereference
              | Some q \<Rightarrow>
                  Inr (l\<lparr>mSensorEventQueue :=
                          Some (q\<lparr>calls := calls q @ [DisableSensor sensor]\<rparr>),
                        sensorsEnabled := sensorsEnabled l AND NOT SENSOR_ORIENTATION\<rparr>)))
      else Inr l)"

subsection \<open>The constructor (lines 96--105)\<close>

text \<open>
  The constructor clears the mask and the three pointers it names; \<^verbatim>\<open>mLooper\<close> is a
  strong pointer that starts null.  \<^verbatim>\<open>mCbCookie\<close> is not initialised: its first value
  is the argument here.
\<close>

definition SensorListener :: "cookie \<Rightarrow> listener" where
  "SensorListener uninitialised =
     \<lparr>sensorsEnabled = 0, mOrientationCb = None, mCbCookie = uninitialised,
      mSensorEventQueue = None, mSensorLooperThread = None, mLooper = None\<rparr>"

subsection \<open>initialize (lines 133--176)\<close>

text \<open>
  The codes of \<^verbatim>\<open>status_t\<close> that \<^verbatim>\<open>initialize\<close> names, and \<^verbatim>\<open>UNKNOWN_ERROR\<close> for
  any other failure status of \<^verbatim>\<open>Thread::run\<close>.
\<close>

datatype status_t = NO_ERROR | NO_INIT | NO_MEMORY | INVALID_OPERATION | UNKNOWN_ERROR

text \<open>
  What the platform answers during one call of \<^verbatim>\<open>initialize\<close>: the queue that
  \<^verbatim>\<open>mgr.createEventQueue()\<close> returns (or null), whether
  \<^verbatim>\<open>new SensorLooperThread\<close> yields an object, and the status of the thread's
  \<^verbatim>\<open>run\<close>.
\<close>

record platform =
  createEventQueue :: "event_queue option"
  new_SensorLooperThread :: bool
  run :: status_t

text \<open>
  The messages \<^verbatim>\<open>initialize\<close> writes with \<^verbatim>\<open>LOGE\<close> (lines 148, 160, 167 and
  169), in the order written.
\<close>

datatype log_line = LOGE string

text \<open>
  \<^verbatim>\<open>initialize\<close> declares a local \<^verbatim>\<open>sp<Looper> mLooper\<close> (line 144): the looper it
  creates and registers the queue's descriptor on is that local one, handed to the
  thread; the member \<^verbatim>\<open>mLooper\<close> of the listener is not assigned.  Both branches
  after \<^verbatim>\<open>run\<close> reach the label \<^verbatim>\<open>out\<close> and return \<^verbatim>\<open>ret\<close>; they differ in the
  message logged.  The result is the status, the listener and the lines logged.
\<close>

definition initialize :: "platform \<Rightarrow> listener \<Rightarrow> status_t \<times> listener \<times> log_line list" where
  "initialize p l =
     (let l1 = l\<lparr>mSensorEventQueue := createEventQueue p\<rparr> in
      case mSensorEventQueue l1 of
        None \<Rightarrow> (NO_INIT, l1, [LOGE ''createEventQueue returned NULL''])
      | Some q \<Rightarrow>
          let local_mLooper = \<lparr>fds = [getFd q]\<rparr>;
              l2 = (if mSensorLooperThread l1 = None
                    then l1\<lparr>mSensorLooperThread :=
                             (if new_SensorLooperThread p
                              then Some \<lparr>thread_looper = local_mLooper\<rparr> else None)\<rparr>
                    else l1)
          in if mSensorLooperThread l2 = None
             then (NO_MEMORY, l2, [LOGE ''Couldn't create sensor looper thread''])
             else
               let ret = run p in
               if ret = INVALID_OPERATION then (ret, l2, [LOGE ''thread already running ?!?''])
               else if ret \<noteq> NO_ERROR then (ret, l2, [LOGE ''couldn't run thread''])
               else (ret, l2, []))"

subsection \<open>The destructor (lines 107--131)\<close>

text \<open>The calls the destructor makes on the thread and on the looper, in order.\<close>

datatype shutdown_call = RequestExit | Wake | Join | RemoveFd int

definition destroy :: "listener \<Rightarrow> fault + listener \<times> shutdown_call list" where
  "destroy l =
     (let (l1, made) =
            (case mSensorLooperThread l of
               None \<Rightarrow> (l, [])
             | Some t \<Rightarrow> (l\<lparr>mSensorLooperThread := None\<rparr>, [RequestExit, Wake, Join]))
      in case mLooper l1 of
           None \<Rightarrow> Inr (l1, made)
         | Some lp \<Rightarrow>
             (case mSensorEventQueue l1 of
                None \<Rightarrow> Inl NullPointerDereference
              | Some q \<Rightarrow> Inr (l1\<lparr>mLooper := None\<rparr>, made @ [RemoveFd (getFd q)])))"

section \<open>The accelerometer arithmetic of sensor_events_listener (lines 42--93)\<close>

text \<open>
  Single-precision values are idealised as real numbers: \<^verbatim>\<open>sqrt\<close>, \<^verbatim>\<open>asinf\<close> and
  \<^verbatim>\<open>atan2f\<close> are the mathematical functions, without rounding and without signed
  zeros.  A \<^verbatim>\<open>float\<close> that is not a finite number (a NaN or an infinity) is
  \<open>None\<close>.  The conversions to \<^verbatim>\<open>int\<close>, their order and the integer arithmetic are
  those of the source; no \<^verbatim>\<open>int\<close> computed here leaves the range of 32 bits, so
  \<open>int\<close> is exact for them.

  The idealisation is exact only away from the limits of binary32.  Where the squares
  underflow (components near \<open>1e-30\<close>) or overflow (near \<open>1e20\<close>), and where an
  angle lies within rounding distance of an integer number of radians, the compiled
  code can give another result than these definitions.  The samples at which the
  claims below are evaluated, \<open>(0, 0, 9.81)\<close>, \<open>(0, 0, 0)\<close> and
  \<open>(6.93, 6.93, 0)\<close>, are far from all three.
\<close>

type_synonym cfloat = "real option"

definition RADIANS_2_DEG :: real where
  "RADIANS_2_DEG = 180 / pi"

definition DEGREES_90_THRESH :: int where
  "DEGREES_90_THRESH = 50"

definition DEGREES_180_THRESH :: int where
  "DEGREES_180_THRESH = 170"

definition DEGREES_270_THRESH :: int where
  "DEGREES_270_THRESH = 250"

text \<open>
  Division of floats: a zero divisor gives a NaN (\<open>0 / 0\<close>) or an infinity, never a
  trap and never a finite number.
\<close>

definition float_div :: "real \<Rightarrow> real \<Rightarrow> cfloat" where
  "float_div a b = (if b = 0 then None else Some (a / b))"

text \<open>\<^verbatim>\<open>asinf\<close>: a NaN for an argument outside \<open>[-1, 1]\<close>, an infinity or a NaN.\<close>

definition asinf :: "cfloat \<Rightarrow> cfloat" where
  "asinf v = (case v of None \<Rightarrow> None
              | Some r \<Rightarrow> if \<bar>r\<bar> \<le> 1 then Some (arcsin r) else None)"

text \<open>\<^verbatim>\<open>atan2f y x\<close>: the angle of the point \<open>(x, y)\<close>, in \<open>(-pi, pi]\<close>.\<close>

definition atan2f :: "real \<Rightarrow> real \<Rightarrow> real" where
  "atan2f y x =
     (if 0 < x then arctan (y / x)
      else if x < 0 then (if 0 \<le> y then arctan (y / x) + pi else arctan (y / x) - pi)
      else if 0 < y then pi / 2
      else if y < 0 then - (pi / 2)
      else 0)"

text \<open>
  The conversion of a \<^verbatim>\<open>float\<close> to \<^verbatim>\<open>int\<close>, written \<^verbatim>\<open>(int)\<close> or implied by an
  assignment: the fraction is discarded (towards zero); undefined for a value that is
  not finite or whose integral part is not an \<^verbatim>\<open>int\<close>.
\<close>

definition to_zero :: "real \<Rightarrow> int" where
  "to_zero r = (if 0 \<le> r then \<lfloor>r\<rfloor> else \<lceil>r\<rceil>)"

definition float_to_int :: "cfloat \<Rightarrow> fault + int" where
  "float_to_int v =
     (case v of
        None \<Rightarrow> Inl UndefinedConversion
      | Some r \<Rightarrow>
          let t = to_zero r in
          if - 2147483648 \<le> t \<and> t \<le> 2147483647 then Inr t else Inl UndefinedConversion)"

text \<open>
  Lines 63--64.  In \<^verbatim>\<open>tilt = (int) asinf(z / radius) * RADIANS_2_DEG\<close> the cast binds
  tighter than the product: the angle in radians is converted to \<^verbatim>\<open>int\<close>, that
  \<^verbatim>\<open>int\<close> is multiplied by the \<^verbatim>\<open>float\<close> constant, and the product is converted
  again by the assignment to the \<^verbatim>\<open>int\<close> variable.
\<close>

definition sample_tilt :: "real \<Rightarrow> real \<Rightarrow> real \<Rightarrow> fault + int" where
  "sample_tilt x y z =
     (let radius = sqrt (x * x + y * y + z * z) in
      and_then (float_to_int (asinf (float_div z radius)))
        (\<lambda>k. float_to_int (Some (real_of_int k * RADIANS_2_DEG))))"

text \<open>
  Lines 67--79: a negative \<^verbatim>\<open>orient\<close> is raised by 360, then the thresholds are
  tried from the largest down.
\<close>

definition discretize :: "int \<Rightarrow> int" where
  "discretize orient0 =
     (let orient = (if orient0 < 0 then orient0 + 360 else orient0) in
      if orient \<ge> DEGREES_270_THRESH then 270
      else if orient \<ge> DEGREES_180_THRESH then 180
      else if orient \<ge> DEGREES_90_THRESH then 90
      else 0)"

text \<open>Lines 65--79: \<^verbatim>\<open>orient\<close>, with the same shape of expression as \<^verbatim>\<open>tilt\<close>.\<close>

definition sample_orient :: "real \<Rightarrow> real \<Rightarrow> fault + int" where
  "sample_orient x y =
     and_then (float_to_int (Some (atan2f (- x) y)))
       (\<lambda>k. and_then (float_to_int (Some (real_of_int k * RADIANS_2_DEG)))
          (\<lambda>orient. Inr (discretize orient)))"

text \<open>
  Lines 49--84, the body of the loop for one event: an accelerometer event is classified
  and handed to \<^verbatim>\<open>handleOrientation\<close>, whose parameters are \<^verbatim>\<open>uint32_t\<close>; any
  other event changes nothing.
\<close>

record ASensorEvent =
  etype :: sensor_kind
  azimuth :: real
  pitch :: real
  roll :: real

definition sensor_event ::
  "sensor_type_t \<Rightarrow> ASensorEvent \<Rightarrow> listener \<Rightarrow> fault + listener \<times> callback_call list" where
  "sensor_event SENSOR_ORIENTATION ev l =
     (if etype ev = TYPE_ACCELEROMETER then
        (let x = azimuth ev; y = pitch ev; z = roll ev in
         and_then (sample_tilt x y z)
           (\<lambda>tilt. and_then (sample_orient x y)
              (\<lambda>orient. Inr (handleOrientation SENSOR_ORIENTATION
                                (word_of_int orient) (word_of_int tilt) l))))
      else Inr (l, []))"

section \<open>Example states\<close>

text \<open>
  A platform on which everything succeeds, a manager with an accelerometer (handle 1)
  and one without, and the listener after construction and one \<^verbatim>\<open>initialize\<close>.
\<close>

definition example_platform :: platform where
  "example_platform =
     \<lparr>createEventQueue = Some \<lparr>getFd = 3, calls = []\<rparr>,
      new_SensorLooperThread = True, run = NO_ERROR\<rparr>"

definition example_manager :: sensor_manager where
  "example_manager =
     \<lparr>getDefaultSensor = (\<lambda>k. if k = TYPE_ACCELEROMETER then Some 1 else None)\<rparr>"

definition bare_manager :: sensor_manager where
  "bare_manager = \<lparr>getDefaultSensor = (\<lambda>k. None)\<rparr>"

definition listening :: listener where
  "listening = fst (snd (initialize example_platform (SensorListener 0)))"

section \<open>Auxiliary facts\<close>

lemma and_then_Inr: "and_then (Inr v) f = f v"
  by (simp add: and_then_def)

lemma and_then_Inl: "and_then (Inl e) f = Inl e"
  by (simp add: and_then_def)

lemma mask_after_enable: "(m OR b) AND b = (b :: 32 word)"
  by (simp add: bit_eq_iff bit_simps)

lemma mask_after_disable: "(m AND NOT b) AND b = (0 :: 32 word)"
  by (simp add: bit_eq_iff bit_simps)

subsection \<open>Bounds on pi, from Machin's formula\<close>

text \<open>
  The library gives \<open>2 \<le> pi < 4\<close>; the value of \<^verbatim>\<open>RADIANS_2_DEG\<close> as an integer
  needs two more digits.  The two bounds on \<open>arctan\<close> are the first terms of its
  alternating series, proved from the sign of a derivative.
\<close>

lemma arctan_lower:
  assumes "0 \<le> x"
  shows "x - x ^ 3 / 3 \<le> arctan x"
proof -
  let ?f = "\<lambda>t::real. arctan t - t + t ^ 3 / 3"
  have "?f 0 \<le> ?f x"
  proof (rule DERIV_nonneg_imp_nondecreasing [OF assms])
    fix t :: real
    have d: "(?f has_real_derivative (1 / (1 + t\<^sup>2) - 1 + t\<^sup>2)) (at t)"
      by (auto intro!: derivative_eq_intros simp: field_simps)
    have "1 / (1 + t\<^sup>2) - 1 + t\<^sup>2 = t ^ 4 / (1 + t\<^sup>2)"
      by (simp add: field_simps power2_eq_square power4_eq_xxxx add_nonneg_eq_0_iff)
    then have "0 \<le> 1 / (1 + t\<^sup>2) - 1 + t\<^sup>2"
      by simp
    with d show "\<exists>y. (?f has_real_derivative y) (at t) \<and> 0 \<le> y"
      by blast
  qed
  then show ?thesis by simp
qed

lemma arctan_upper:
  assumes "0 \<le> x"
  shows "arctan x \<le> x - x ^ 3 / 3 + x ^ 5 / 5"
proof -
  let ?g = "\<lambda>t::real. t - t ^ 3 / 3 + t ^ 5 / 5 - arctan t"
  have "?g 0 \<le> ?g x"
  proof (rule DERIV_nonneg_imp_nondecreasing [OF assms])
    fix t :: real
    have d: "(?g has_real_derivative (1 - t\<^sup>2 + t ^ 4 - 1 / (1 + t\<^sup>2))) (at t)"
      by (auto intro!: derivative_eq_intros simp: field_simps)
    have "1 - t\<^sup>2 + t ^ 4 - 1 / (1 + t\<^sup>2) = t ^ 6 / (1 + t\<^sup>2)"
      by (simp add: field_simps add_nonneg_eq_0_iff)
    then have "0 \<le> 1 - t\<^sup>2 + t ^ 4 - 1 / (1 + t\<^sup>2)"
      by simp
    with d show "\<exists>y. (?g has_real_derivative y) (at t) \<and> 0 \<le> y"
      by blast
  qed
  then show ?thesis by simp
qed

lemma pi_lower: "157 / 50 < pi"
proof -
  have a: "1 / 5 - (1 / 5) ^ 3 / 3 \<le> arctan (1 / 5)"
    using arctan_lower [of "1 / 5"] by simp
  have b: "arctan (1 / 239) \<le> 1 / 239 - (1 / 239) ^ 3 / 3 + (1 / 239) ^ 5 / 5"
    using arctan_upper [of "1 / 239"] by simp
  have "pi = 16 * arctan (1 / 5) - 4 * arctan (1 / 239)"
    using machin by simp
  with a b show ?thesis
    by (simp add: power_numeral_reduce)
qed

lemma pi_upper: "pi < 60 / 19"
proof -
  have a: "arctan (1 / 5) \<le> 1 / 5 - (1 / 5) ^ 3 / 3 + (1 / 5) ^ 5 / 5"
    using arctan_upper [of "1 / 5"] by simp
  have b: "1 / 239 - (1 / 239) ^ 3 / 3 \<le> arctan (1 / 239)"
    using arctan_lower [of "1 / 239"] by simp
  have "pi = 16 * arctan (1 / 5) - 4 * arctan (1 / 239)"
    using machin by simp
  with a b show ?thesis
    by (simp add: power_numeral_reduce)
qed

lemma RADIANS_2_DEG_bounds: "57 < RADIANS_2_DEG" "3 * RADIANS_2_DEG < 172"
  using pi_upper pi_lower by (simp_all add: RADIANS_2_DEG_def field_simps)

subsection \<open>The conversion to int\<close>

lemma to_zero_bounds:
  "\<bar>r\<bar> < real_of_int n + 1 \<Longrightarrow> 0 \<le> n \<Longrightarrow> - n \<le> to_zero r \<and> to_zero r \<le> n"
  unfolding to_zero_def
  by (auto simp: floor_le_iff le_ceiling_iff le_floor_iff ceiling_le_iff)

lemma to_zero_half_pi: "to_zero (pi / 2) = 1"
  using pi_ge_two pi_less_4 by (simp add: to_zero_def floor_unique)

lemma to_zero_minus_quarter_pi: "to_zero (- (pi / 4)) = 0"
proof -
  have "\<lceil>- (pi / 4)\<rceil> = 0"
  proof (rule ceiling_unique)
    show "real_of_int 0 - 1 < - (pi / 4)"
      using pi_less_4 by simp
    show "- (pi / 4) \<le> real_of_int 0"
      by simp
  qed
  moreover have "\<not> 0 \<le> - (pi / 4)"
    using pi_gt_zero by (simp add: not_le)
  ultimately show ?thesis
    unfolding to_zero_def by simp
qed

lemma float_to_int_in_range:
  "- 2147483648 \<le> to_zero r \<Longrightarrow> to_zero r \<le> 2147483647 \<Longrightarrow>
     float_to_int (Some r) = Inr (to_zero r)"
  by (simp add: float_to_int_def)

text \<open>
  For the few integers that an angle in radians can be cut to, the product with
  \<^verbatim>\<open>RADIANS_2_DEG\<close> is cut to a multiple of 57.
\<close>

lemma to_zero_times_RADIANS_2_DEG:
  assumes "- 3 \<le> k" "k \<le> 3"
  shows "to_zero (real_of_int k * RADIANS_2_DEG) = 57 * k"
proof -
  from assms have "k \<in> {- 3, - 2, - 1, 0, 1, 2, 3}"
    by auto
  then show ?thesis
    using RADIANS_2_DEG_bounds unfolding to_zero_def
    by (elim insertE emptyE; simp add: floor_eq_iff ceiling_eq_iff)
qed

lemma degrees_of_radians:
  assumes "- 3 \<le> k" "k \<le> 3"
  shows "float_to_int (Some (real_of_int k * RADIANS_2_DEG)) = Inr (57 * k)"
proof -
  have "to_zero (real_of_int k * RADIANS_2_DEG) = 57 * k"
    using assms by (rule to_zero_times_RADIANS_2_DEG)
  moreover have "- 2147483648 \<le> 57 * k" "57 * k \<le> 2147483647"
    using assms by simp_all
  ultimately show ?thesis
    by (simp add: float_to_int_def)
qed

subsection \<open>What the two expressions compute, for every sample\<close>

lemma atan2f_bounded: "\<bar>atan2f y x\<bar> \<le> pi"
proof -
  have b: "- (pi / 2) < arctan (y / x)" "arctan (y / x) < pi / 2"
    using arctan_bounded [of "y / x"] by simp_all
  have p: "0 < pi"
    by simp
  consider "0 < x" | "x < 0" "0 \<le> y" | "x < 0" "y < 0" | "x = 0"
    by linarith
  then show ?thesis
  proof cases
    case 1
    then have "atan2f y x = arctan (y / x)"
      by (simp add: atan2f_def)
    with b p show ?thesis by linarith
  next
    case 2
    then have "y / x \<le> 0"
      by (simp add: divide_nonneg_neg)
    then have "arctan (y / x) \<le> 0"
      by simp
    moreover from 2 have "atan2f y x = arctan (y / x) + pi"
      by (simp add: atan2f_def)
    ultimately show ?thesis
      using b p by linarith
  next
    case 3
    then have "0 < y / x"
      by (simp add: divide_neg_neg)
    then have "0 < arctan (y / x)"
      by simp
    moreover from 3 have "atan2f y x = arctan (y / x) - pi"
      by (simp add: atan2f_def)
    ultimately show ?thesis
      using b p by linarith
  next
    case 4
    then have "atan2f y x = pi / 2 \<or> atan2f y x = - (pi / 2) \<or> atan2f y x = 0"
      by (simp add: atan2f_def)
    with p show ?thesis by linarith
  qed
qed

text \<open>
  In exact real arithmetic, the tilt of a sample other than \<open>(0, 0, 0)\<close> is 57 times
  the angle in radians cut to an integer, so it is \<open>-57\<close>, 0 or 57.
\<close>

lemma sample_tilt_general:
  assumes "x \<noteq> 0 \<or> y \<noteq> 0 \<or> z \<noteq> 0"
  shows "sample_tilt x y z = Inr (57 * to_zero (arcsin (z / sqrt (x * x + y * y + z * z))))"
    and "to_zero (arcsin (z / sqrt (x * x + y * y + z * z))) \<in> {- 1..1}"
proof -
  define radius where "radius = sqrt (x * x + y * y + z * z)"
  let ?a = "arcsin (z / radius)"
  have "0 < x\<^sup>2 + y\<^sup>2 + z\<^sup>2"
    using assms by (auto simp: add_pos_nonneg add_nonneg_pos)
  then have pos: "0 < radius"
    unfolding radius_def by (simp add: power2_eq_square)
  have "z\<^sup>2 \<le> x\<^sup>2 + y\<^sup>2 + z\<^sup>2"
    by simp
  then have "sqrt (z\<^sup>2) \<le> radius"
    unfolding radius_def power2_eq_square by (rule real_sqrt_le_mono)
  then have "\<bar>z\<bar> \<le> radius"
    by simp
  with pos have q: "\<bar>z / radius\<bar> \<le> 1"
    by simp
  then have angle: "asinf (float_div z radius) = Some ?a"
    using pos by (simp add: float_div_def asinf_def)
  from q have lo: "- 1 \<le> z / radius" and hi: "z / radius \<le> 1"
    by linarith+
  have "- (pi / 2) \<le> ?a" "?a \<le> pi / 2"
    using arcsin_lbound [OF lo hi] arcsin_ubound [OF lo hi] by simp_all
  then have "\<bar>?a\<bar> < real_of_int 1 + 1"
    using pi_less_4 by (simp add: abs_less_iff)
  then have k: "- 1 \<le> to_zero ?a \<and> to_zero ?a \<le> 1"
    by (rule to_zero_bounds) simp
  then show "to_zero (arcsin (z / sqrt (x * x + y * y + z * z))) \<in> {- 1..1}"
    unfolding radius_def by simp
  from k have first: "float_to_int (Some ?a) = Inr (to_zero ?a)"
    by (intro float_to_int_in_range) simp_all
  from k have second:
    "float_to_int (Some (real_of_int (to_zero ?a) * RADIANS_2_DEG)) = Inr (57 * to_zero ?a)"
    by (intro degrees_of_radians) simp_all
  show "sample_tilt x y z = Inr (57 * to_zero (arcsin (z / sqrt (x * x + y * y + z * z))))"
    unfolding sample_tilt_def Let_def radius_def [symmetric] angle first and_then_Inr second ..
qed

text \<open>
  In exact real arithmetic, the orientation of every sample is the sector of 57 times
  the angle in radians cut to an integer between \<open>-3\<close> and 3; it is always one of
  0, 90, 180 and 270.
\<close>

lemma sample_orient_general:
  "sample_orient x y = Inr (discretize (57 * to_zero (atan2f (- x) y)))"
  and "to_zero (atan2f (- x) y) \<in> {- 3..3}"
proof -
  let ?a = "atan2f (- x) y"
  have "\<bar>?a\<bar> < real_of_int 3 + 1"
    using atan2f_bounded [of "- x" y] pi_less_4 by simp
  then have k: "- 3 \<le> to_zero ?a \<and> to_zero ?a \<le> 3"
    by (rule to_zero_bounds) simp
  then show "to_zero ?a \<in> {- 3..3}"
    by simp
  from k have first: "float_to_int (Some ?a) = Inr (to_zero ?a)"
    by (intro float_to_int_in_range) simp_all
  from k have second:
    "float_to_int (Some (real_of_int (to_zero ?a) * RADIANS_2_DEG)) = Inr (57 * to_zero ?a)"
    by (intro degrees_of_radians) simp_all
  show "sample_orient x y = Inr (discretize (57 * to_zero ?a))"
    unfolding sample_orient_def first and_then_Inr second ..
qed

lemma discretize_values: "discretize n \<in> {0, 90, 180, 270}"
  by (simp add: discretize_def Let_def)

lemma discretize_thresholds:
  "discretize 49 = 0" "discretize 50 = 90" "discretize 169 = 90" "discretize 170 = 180"
  "discretize 249 = 180" "discretize 250 = 270"
  by (simp_all add: discretize_def DEGREES_270_THRESH_def DEGREES_180_THRESH_def
      DEGREES_90_THRESH_def)

subsection \<open>The two angles at the inputs used below\<close>

text \<open>Gravity along the z axis alone: the angle is \<open>pi / 2\<close>, the cast makes it 1.\<close>

lemma sample_tilt_straight_up:
  assumes "0 < z"
  shows "sample_tilt 0 0 z = Inr 57"
proof -
  have "z / sqrt (0 * 0 + 0 * 0 + z * z) = 1"
    using assms by simp
  moreover have "sample_tilt 0 0 z = Inr (57 * to_zero (arcsin (z / sqrt (0 * 0 + 0 * 0 + z * z))))"
    using assms by (intro sample_tilt_general) simp
  ultimately show ?thesis
    by (simp add: to_zero_half_pi)
qed

text \<open>No gravity along the z axis: the angle is 0.\<close>

lemma sample_tilt_upright:
  assumes "x \<noteq> 0"
  shows "sample_tilt x y 0 = Inr 0"
proof -
  have "sample_tilt x y 0 = Inr (57 * to_zero (arcsin (0 / sqrt (x * x + y * y + 0 * 0))))"
    using assms by (intro sample_tilt_general) simp
  then show ?thesis
    by (simp add: to_zero_def)
qed

text \<open>\<open>x = y > 0\<close>: the angle is \<open>- pi / 4\<close>, the cast makes it 0.\<close>

lemma sample_orient_diagonal:
  assumes "0 < a"
  shows "sample_orient a a = Inr 0"
proof -
  have "atan2f (- a) a = - (pi / 4)"
    using assms by (simp add: atan2f_def arctan_minus arctan_one)
  then have "sample_orient a a = Inr (discretize (57 * to_zero (- (pi / 4))))"
    by (simp add: sample_orient_general)
  then show ?thesis
    by (simp add: to_zero_minus_quarter_pi discretize_def DEGREES_270_THRESH_def
        DEGREES_180_THRESH_def DEGREES_90_THRESH_def)
qed

lemma sample_orient_straight_up: "sample_orient 0 0 = Inr 0"
proof -
  have "atan2f (- 0) 0 = 0"
    by (simp add: atan2f_def)
  then have "sample_orient 0 0 = Inr (discretize (57 * to_zero 0))"
    using sample_orient_general(1) [of 0 0] by simp
  then show ?thesis
    by (simp add: to_zero_def discretize_def DEGREES_270_THRESH_def
        DEGREES_180_THRESH_def DEGREES_90_THRESH_def)
qed

subsection \<open>The example listener, evaluated\<close>

lemma listening_eq:
  "listening =
     \<lparr>sensorsEnabled = 0, mOrientationCb = None, mCbCookie = 0,
      mSensorEventQueue = Some \<lparr>getFd = 3, calls = []\<rparr>,
      mSensorLooperThread = Some \<lparr>thread_looper = \<lparr>fds = [3]\<rparr>\<rparr>, mLooper = None\<rparr>"
  by (simp add: listening_def initialize_def example_platform_def SensorListener_def Let_def)

section \<open>The claims\<close>

subsection \<open>The accelerometer arithmetic\<close>

text \<open>
  Claim C1 (tilt is \<open>asin (z / radius)\<close> in degrees; about 90 for gravity straight up),
  evaluated on the code: for the sample \<open>(0, 0, 9.81)\<close>, where \<open>z = radius\<close>, the tilt
  handed to \<^verbatim>\<open>handleOrientation\<close> is 57 and the orientation 0.  The angle
  \<open>pi / 2\<close> is cut to the integer 1 before it is multiplied by \<^verbatim>\<open>RADIANS_2_DEG\<close>.
\<close>

theorem tilt_straight_up_delivered:
  "sensor_event SENSOR_ORIENTATION
     \<lparr>etype = TYPE_ACCELEROMETER, azimuth = 0, pitch = 0, roll = 981 / 100\<rparr> l
     = Inr (handleOrientation SENSOR_ORIENTATION 0 57 l)"
proof -
  have "sample_tilt 0 0 (981 / 100) = Inr 57"
    by (rule sample_tilt_straight_up) simp
  then show ?thesis
    by (simp add: sensor_event_def sample_orient_straight_up and_then_Inr)
qed

text \<open>
  Claim C2 (the sample \<open>(0, 0, 0)\<close> is special-cased or gives a defined reading, with
  no unguarded division by zero), evaluated on the code: nothing guards the division,
  \<open>0 / 0\<close> is not a number, and its conversion to \<^verbatim>\<open>int\<close> is undefined; the
  listener is not called.
\<close>

theorem zero_sample_undefined:
  "sensor_event SENSOR_ORIENTATION
     \<lparr>etype = TYPE_ACCELEROMETER, azimuth = 0, pitch = 0, roll = 0\<rparr> l
     = Inl UndefinedConversion"
proof -
  have "asinf (float_div 0 (sqrt (0 * 0 + 0 * 0 + 0 * 0))) = None"
    by (simp add: float_div_def asinf_def)
  then have "sample_tilt 0 0 0 = Inl UndefinedConversion"
    by (simp add: sample_tilt_def float_to_int_def and_then_Inl)
  then show ?thesis
    by (simp add: sensor_event_def and_then_Inl)
qed

text \<open>
  Claim C5 (orientation is \<open>atan2 (-x) y\<close> in degrees, normalised into \<open>[0, 360)\<close>,
  then cut at 50, 170 and 250), evaluated on the code: for the sample
  \<open>(6.93, 6.93, 0)\<close> the angle is \<open>-45\<close> degrees, which normalises to 315 and would
  be delivered as 270; the code delivers 0, because \<open>- pi / 4\<close> is cut to the integer
  0 before the conversion to degrees.
\<close>

theorem diagonal_orientation_delivered:
  "sensor_event SENSOR_ORIENTATION
     \<lparr>etype = TYPE_ACCELEROMETER, azimuth = 693 / 100, pitch = 693 / 100, roll = 0\<rparr> l
     = Inr (handleOrientation SENSOR_ORIENTATION 0 0 l)"
proof -
  have t: "sample_tilt (693 / 100) (693 / 100) 0 = Inr 0"
    by (rule sample_tilt_upright) simp
  have o: "sample_orient (693 / 100) (693 / 100) = Inr 0"
    by (rule sample_orient_diagonal) simp
  show ?thesis
    by (simp add: sensor_event_def t o and_then_Inr)
qed

subsection \<open>setCallbacks\<close>

text \<open>
  Claim C3, as amended: for every listener and every context value, \<^verbatim>\<open>setCallbacks\<close>
  with a null callback keeps the stored function pointer and stores the given context;
  nothing else changes.
\<close>

theorem setCallbacks_null_keeps_function:
  "setCallbacks None cookie l = l\<lparr>mCbCookie := cookie\<rparr>"
  by (simp add: setCallbacks_def)

text \<open>
  Claim C3 as stated (a null callback leaves function and context unchanged) fails:
  callback 7 is registered with context 1, then \<^verbatim>\<open>setCallbacks(NULL, 2)\<close> leaves
  callback 7 stored with context 2.
\<close>

theorem setCallbacks_null_counterexample:
  "mOrientationCb (setCallbacks None 2 (setCallbacks (Some 7) 1 (SensorListener 0))) = Some 7 \<and>
   mCbCookie (setCallbacks (Some 7) 1 (SensorListener 0)) = 1 \<and>
   mCbCookie (setCallbacks None 2 (setCallbacks (Some 7) 1 (SensorListener 0))) = 2 \<and>
   setCallbacks None 2 (setCallbacks (Some 7) 1 (SensorListener 0))
     \<noteq> setCallbacks (Some 7) 1 (SensorListener 0)"
  by (simp add: setCallbacks_def SensorListener_def)

subsection \<open>initialize\<close>



subsection \<open>handleOrientation\<close>

text \<open>
  Claim C7: \<^verbatim>\<open>handleOrientation\<close> calls the registered callback, once and with
  (orientation, tilt, context), if and only if a callback is registered and the
  orientation bit of the mask is set; otherwise it calls nothing; the listener is
  unchanged in every case.
\<close>

theorem handleOrientation_dispatch:
  "fst (handleOrientation SENSOR_ORIENTATION orientation tilt l) = l \<and>
   ((\<exists>cb. mOrientationCb l = Some cb \<and>
          snd (handleOrientation SENSOR_ORIENTATION orientation tilt l)
            = [Invoke cb orientation tilt (mCbCookie l)])
      \<longleftrightarrow> (mOrientationCb l \<noteq> None \<and> sensorsEnabled l AND SENSOR_ORIENTATION \<noteq> 0)) \<and>
   (\<not> (mOrientationCb l \<noteq> None \<and> sensorsEnabled l AND SENSOR_ORIENTATION \<noteq> 0)
      \<longrightarrow> snd (handleOrientation SENSOR_ORIENTATION orientation tilt l) = [])"
  by (auto simp: handleOrientation_def split: option.splits)

text \<open>
  Without a callback the reading is dropped; with callback 7, context 1 and the bit set
  (here \<^verbatim>\<open>SENSOR_ORIENTATION\<close> is 32), the call is made.
\<close>

theorem handleOrientation_dispatch_witness:
  "\<not> (mOrientationCb listening \<noteq> None \<and> sensorsEnabled listening AND 32 \<noteq> 0) \<and>
   handleOrientation 32 90 57 listening = (listening, []) \<and>
   snd (handleOrientation 32 90 57 (setCallbacks (Some 7) 1 (listening\<lparr>sensorsEnabled := 32\<rparr>)))
     = [Invoke 7 90 57 1]"
proof -
  let ?on = "setCallbacks (Some 7) 1 (listening\<lparr>sensorsEnabled := 32\<rparr>)"
  have off: "\<not> (mOrientationCb listening \<noteq> None \<and> sensorsEnabled listening AND 32 \<noteq> 0)"
    by (simp add: listening_eq)
  have on: "mOrientationCb ?on \<noteq> None \<and> sensorsEnabled ?on AND 32 \<noteq> 0"
    by (simp add: setCallbacks_def)
  have slot: "mOrientationCb ?on = Some 7" "mCbCookie ?on = 1"
    by (simp_all add: setCallbacks_def)
  from handleOrientation_dispatch [of 32 90 57 listening] off
  have "fst (handleOrientation 32 90 57 listening) = listening"
    and "snd (handleOrientation 32 90 57 listening) = []"
    by blast+
  then have "handleOrientation 32 90 57 listening = (listening, [])"
    by (simp add: prod_eq_iff)
  moreover from handleOrientation_dispatch [of 32 90 57 ?on] on
  have "\<exists>cb. mOrientationCb ?on = Some cb \<and>
          snd (handleOrientation 32 90 57 ?on) = [Invoke cb 90 57 (mCbCookie ?on)]"
    by blast
  with slot have "snd (handleOrientation 32 90 57 ?on) = [Invoke 7 90 57 1]"
    by auto
  ultimately show ?thesis
    using off by blast
qed

subsection \<open>enableSensor and disableSensor\<close>

text \<open>
  Claim C8: for every listener, manager and sensor type, \<^verbatim>\<open>enableSensor\<close> twice in a
  row ends as \<^verbatim>\<open>enableSensor\<close> once does, with the same mask and the same calls made
  on the event queue, and so does \<^verbatim>\<open>disableSensor\<close>; enabling with the bit set and
  disabling with the bit clear change nothing.
\<close>

theorem enable_disable_idempotent:
  "and_then (enableSensor SENSOR_ORIENTATION mgr t l) (enableSensor SENSOR_ORIENTATION mgr t)
     = enableSensor SENSOR_ORIENTATION mgr t l \<and>
   and_then (disableSensor SENSOR_ORIENTATION mgr t l) (disableSensor SENSOR_ORIENTATION mgr t)
     = disableSensor SENSOR_ORIENTATION mgr t l \<and>
   (sensorsEnabled l AND SENSOR_ORIENTATION \<noteq> 0
      \<longrightarrow> enableSensor SENSOR_ORIENTATION mgr t l = Inr l) \<and>
   (sensorsEnabled l AND SENSOR_ORIENTATION = 0
      \<longrightarrow> disableSensor SENSOR_ORIENTATION mgr t l = Inr l)"
proof (intro conjI impI)
  show "and_then (enableSensor SENSOR_ORIENTATION mgr t l) (enableSensor SENSOR_ORIENTATION mgr t)
          = enableSensor SENSOR_ORIENTATION mgr t l"
    by (auto simp: and_then_def enableSensor_def mask_after_enable split: option.splits)
  show "and_then (disableSensor SENSOR_ORIENTATION mgr t l) (disableSensor SENSOR_ORIENTATION mgr t)
          = disableSensor SENSOR_ORIENTATION mgr t l"
    by (auto simp: and_then_def disableSensor_def mask_after_disable split: option.splits)
  show "enableSensor SENSOR_ORIENTATION mgr t l = Inr l"
    if "sensorsEnabled l AND SENSOR_ORIENTATION \<noteq> 0"
    using that by (simp add: enableSensor_def)
  show "disableSensor SENSOR_ORIENTATION mgr t l = Inr l"
    if "sensorsEnabled l AND SENSOR_ORIENTATION = 0"
    using that by (simp add: disableSensor_def)
qed

text \<open>
  On the initialised listener the bit is clear: disabling changes nothing, and enabling
  twice leaves one \<^verbatim>\<open>enableSensor\<close> and one \<^verbatim>\<open>setEventRate\<close> on the queue.  With the
  bit set, enabling changes nothing.
\<close>

theorem enable_disable_idempotent_witness:
  "sensorsEnabled listening AND 32 = 0 \<and>
   disableSensor 32 example_manager 32 listening = Inr listening \<and>
   and_then (enableSensor 32 example_manager 32 listening) (enableSensor 32 example_manager 32)
     = Inr (listening\<lparr>mSensorEventQueue :=
                        Some \<lparr>getFd = 3, calls = [EnableSensor 1, SetEventRate 1 100000000]\<rparr>,
                      sensorsEnabled := 32\<rparr>) \<and>
   sensorsEnabled (listening\<lparr>sensorsEnabled := 32\<rparr>) AND 32 \<noteq> 0 \<and>
   enableSensor 32 example_manager 32 (listening\<lparr>sensorsEnabled := 32\<rparr>)
     = Inr (listening\<lparr>sensorsEnabled := 32\<rparr>)"
proof -
  have off: "sensorsEnabled listening AND 32 = 0"
    by (simp add: listening_eq)
  have on: "sensorsEnabled (listening\<lparr>sensorsEnabled := 32\<rparr>) AND 32 \<noteq> 0"
    by simp
  have once: "enableSensor 32 example_manager 32 listening
     = Inr (listening\<lparr>mSensorEventQueue :=
                        Some \<lparr>getFd = 3, calls = [EnableSensor 1, SetEventRate 1 100000000]\<rparr>,
                      sensorsEnabled := 32\<rparr>)"
    by (simp add: enableSensor_def example_manager_def listening_eq ms2ns_def)
  from enable_disable_idempotent [of 32 example_manager 32 listening] off once
    enable_disable_idempotent [of 32 example_manager 32 "listening\<lparr>sensorsEnabled := 32\<rparr>"] on
  show ?thesis
    by simp
qed

text \<open>
  Claim C9: when the manager has no default accelerometer, \<^verbatim>\<open>enableSensor\<close> returns
  normally and leaves the listener as it was: the mask is unchanged and no call is made
  on the event queue.
\<close>

theorem enableSensor_without_accelerometer:
  "getDefaultSensor mgr TYPE_ACCELEROMETER = None \<Longrightarrow>
     enableSensor SENSOR_ORIENTATION mgr t l = Inr l"
  by (simp add: enableSensor_def)

text \<open>
  On a manager without sensors, enabling on the initialised listener leaves the mask 0
  and the queue's log empty.
\<close>

theorem enableSensor_without_accelerometer_witness:
  "getDefaultSensor bare_manager TYPE_ACCELEROMETER = None \<and>
   enableSensor 32 bare_manager 32 listening = Inr listening \<and>
   sensorsEnabled listening = 0 \<and>
   mSensorEventQueue listening = Some \<lparr>getFd = 3, calls = []\<rparr>"
proof -
  have h: "getDefaultSensor bare_manager TYPE_ACCELEROMETER = None"
    by (simp add: bare_manager_def)
  from h enableSensor_without_accelerometer [OF h, of 32 32 listening] show ?thesis
    by (simp add: listening_eq)
qed

text \<open>
  Claim C10: for a sensor type without the \<^verbatim>\<open>SENSOR_ORIENTATION\<close> bit,
  \<^verbatim>\<open>enableSensor\<close> and \<^verbatim>\<open>disableSensor\<close> return normally and leave the listener,
  with its mask and its event queue, as it was.
\<close>

theorem other_kinds_not_actionable:
  "t AND SENSOR_ORIENTATION = 0 \<Longrightarrow>
     enableSensor SENSOR_ORIENTATION mgr t l = Inr l \<and>
     disableSensor SENSOR_ORIENTATION mgr t l = Inr l"
  by (simp add: enableSensor_def disableSensor_def)

text \<open>
  Type 4 has no bit in common with 32: enabling it with the bit clear and disabling it
  with the bit set both change nothing, though the manager has an accelerometer.
\<close>

theorem other_kinds_not_actionable_witness:
  "(4 :: 32 word) AND 32 = 0 \<and>
   enableSensor 32 example_manager 4 listening = Inr listening \<and>
   disableSensor 32 example_manager 4 (listening\<lparr>sensorsEnabled := 32\<rparr>)
     = Inr (listening\<lparr>sensorsEnabled := 32\<rparr>)"
proof -
  have h: "(4 :: 32 word) AND 32 = 0"
    by simp
  from h other_kinds_not_actionable [OF h, of example_manager listening]
    other_kinds_not_actionable [OF h, of example_manager "listening\<lparr>sensorsEnabled := 32\<rparr>"]
  show ?thesis
    by simp
qed

subsection \<open>The destructor\<close>

text \<open>
  The calls of the destructor, in the order it makes them: on a thread that exists,
  \<^verbatim>\<open>requestExit\<close>, \<^verbatim>\<open>wake\<close>, \<^verbatim>\<open>join\<close>; then, on a member looper that exists,
  \<^verbatim>\<open>removeFd\<close>.  \<^verbatim>\<open>initialize\<close> never sets the member looper.  What the looper
  thread does between \<^verbatim>\<open>requestExit\<close> and the return of \<^verbatim>\<open>join\<close> is outside a model
  of one call at a time.
\<close>

lemma destroy_calls:
  assumes "destroy l = Inr (l', made)"
  shows "made = (if mSensorLooperThread l = None then [] else [RequestExit, Wake, Join]) @
                (case mLooper l of None \<Rightarrow> []
                 | Some lp \<Rightarrow> [RemoveFd (getFd (the (mSensorEventQueue l)))])"
  using assms by (auto simp: destroy_def split: option.splits)

lemma initialize_keeps_mLooper: "mLooper (fst (snd (initialize p l))) = mLooper l"
  by (simp add: initialize_def Let_def split: option.splits)

lemma destroy_listening: "destroy listening = Inr (listening\<lparr>mSensorLooperThread := None\<rparr>, [RequestExit, Wake, Join])"
  by (simp add: destroy_def listening_eq)

end
